theory Spec2Isabelle
  imports Complex_Main
begin

section \<open>Python floats and the format specifier \<open>{:.2f}\<close>\<close>

text \<open>
  The hover coordinates of \<open>Rankine_app_MVC.py\<close> are Python floats. A finite float is
  \<open>(-1)^sign * mantissa * 2^exponent\<close>; the sign is kept apart so that \<open>-0.0\<close> exists.
\<close>

datatype pyfloat = Finite bool nat int | Infinity bool | NaN

definition zero_float :: pyfloat where
  \<comment> \<open>The literal \<open>0.0\<close>.\<close>
  "zero_float = Finite False 0 0"

definition digit :: "nat \<Rightarrow> char" where
  \<comment> \<open>Only applied to \<open>d < 10\<close>.\<close>
  "digit d = ''0123456789'' ! d"

function str_nat :: "nat \<Rightarrow> string" where
  "str_nat n = (if n < 10 then [digit n] else str_nat (n div 10) @ [digit (n mod 10)])"
  by pat_completeness auto
termination
  by (relation "measure id") auto

declare str_nat.simps [simp del]

definition round_half_even :: "nat \<Rightarrow> nat \<Rightarrow> nat" where
  \<comment> \<open>\<open>num / den\<close> rounded to the nearest natural number, a tie going to the even one.\<close>
  "round_half_even num den =
     (let d = num div den; r = num mod den
      in if den < 2 * r \<or> (2 * r = den \<and> odd d) then d + 1 else d)"

definition hundredths :: "nat \<Rightarrow> int \<Rightarrow> nat" where
  \<comment> \<open>\<open>mantissa * 2^exponent * 100\<close>, correctly rounded.\<close>
  "hundredths m e =
     (if 0 \<le> e then m * 2 ^ nat e * 100 else round_half_even (m * 100) (2 ^ nat (- e)))"

definition format_2f :: "pyfloat \<Rightarrow> string" where
  \<comment> \<open>\<open>'{:.2f}'.format(f)\<close>\<close>
  "format_2f f =
     (case f of
        NaN \<Rightarrow> ''nan''
      | Infinity neg \<Rightarrow> (if neg then ''-inf'' else ''inf'')
      | Finite neg m e \<Rightarrow>
          (let n = hundredths m e
           in (if neg then ''-'' else []) @ str_nat (n div 100) @ ''.''
              @ [digit (n mod 100 div 10), digit (n mod 10)]))"


section \<open>The main window of \<open>Rankine_app_MVC.py\<close>\<close>

subsection \<open>Widgets, controller, signals\<close>

text \<open>
  \<open>self.input_widgets\<close>, in the order of the list built by the constructor. The window and
  the controller share these widgets, so every controller call takes them and returns them.
  A radio button or check box is its checked state, a line edit its text, a combo box its
  current text.
\<close>

record input_widgets =
  rb_SI :: bool
  le_PHigh :: string
  le_PLow :: string
  le_TurbineInletCondition :: string
  rdo_Quality :: bool
  le_TurbineEff :: string
  cmb_XAxis :: string
  cmb_YAxis :: string
  chk_logX :: bool
  chk_logY :: bool

text \<open>
  The class \<open>rankineController\<close> is imported from \<open>Rankine_Classes_MVC\<close>, which is not part
  of the file at hand. It is a parameter of the model: a constructor and a method table over
  a controller state \<open>'c\<close> (which also holds the display widgets, written by the controller
  only). A call either raises (\<open>Inl\<close>) or returns the widgets and the controller as it left
  them.
\<close>

datatype rc_method =
  RC_updateModel | RC_selectQualityOrTHigh | RC_updatePlot | RC_updateUnits
  | RC_setNewPHigh | RC_setNewPLow

record ('e, 'c) rankineController =
  rc_construct :: "input_widgets \<Rightarrow> 'e + input_widgets \<times> 'c"
  invoke :: "rc_method \<Rightarrow> input_widgets \<Rightarrow> 'c \<Rightarrow> 'e + input_widgets \<times> 'c"

datatype 'e exn = AttributeError | TypeError | Raised 'e

datatype signal =
  btn_Calculate_clicked | rdo_Quality_clicked | rdo_THigh_clicked
  | le_PHigh_editingFinished | le_PLow_editingFinished
  | rb_SI_clicked | rb_English_clicked
  | cmb_XAxis_currentIndexChanged | cmb_YAxis_currentIndexChanged
  | chk_logX_toggled | chk_logY_toggled

datatype slot =
  slot_Calculate | slot_SelectQualityOrTHigh | slot_setNewPHigh | slot_setNewPLow
  | slot_SetUnits | slot_SetPlotVariables | slot_mouseMoveEvent_Canvas

record MouseEvent =
  xdata :: "pyfloat option"
  ydata :: "pyfloat option"

text \<open>
  The attributes of a \<open>MainWindow\<close> object. An attribute that the constructor has not
  assigned yet is \<open>None\<close>, and reading it raises \<open>AttributeError\<close>. \<open>history\<close> lists, in
  order, the controller methods called and the calls of \<open>show()\<close> so far.
\<close>

datatype action = Called rc_method | Shown

record 'c MainWindow =
  widgets :: input_widgets
  RC :: "'c option"
  connections :: "(signal \<times> slot) list"
  canvas_callbacks :: "(string \<times> slot) list"
  oldXData :: "pyfloat option"
  oldYData :: "pyfloat option"
  windowTitle :: string
  shown :: bool
  history :: "action list"

definition bindE :: "'e + 'a \<Rightarrow> ('a \<Rightarrow> 'e + 'b) \<Rightarrow> 'e + 'b" where
  "bindE m f = (case m of Inl e \<Rightarrow> Inl e | Inr a \<Rightarrow> f a)"

subsection \<open>Methods\<close>

definition call_RC ::
  "('e, 'c) rankineController \<Rightarrow> rc_method \<Rightarrow> 'c MainWindow \<Rightarrow> 'e exn + 'c MainWindow" where
  \<comment> \<open>\<open>self.RC.m()\<close>\<close>
  "call_RC ctl m w =
     (case RC w of
        None \<Rightarrow> Inl AttributeError
      | Some c \<Rightarrow>
          (case invoke ctl m (widgets w) c of
             Inl e \<Rightarrow> Inl (Raised e)
           | Inr (ui, c') \<Rightarrow> Inr (w\<lparr>widgets := ui, RC := Some c', history := history w @ [Called m]\<rparr>)))"

definition AssignSlots :: "'c MainWindow \<Rightarrow> 'c MainWindow" where
  "AssignSlots w = w\<lparr>connections := connections w @
     [(btn_Calculate_clicked, slot_Calculate),
      (rdo_Quality_clicked, slot_SelectQualityOrTHigh),
      (rdo_THigh_clicked, slot_SelectQualityOrTHigh),
      (le_PHigh_editingFinished, slot_setNewPHigh),
      (le_PLow_editingFinished, slot_setNewPLow),
      (rb_SI_clicked, slot_SetUnits),
      (rb_English_clicked, slot_SetUnits),
      (cmb_XAxis_currentIndexChanged, slot_SetPlotVariables),
      (cmb_YAxis_currentIndexChanged, slot_SetPlotVariables),
      (chk_logX_toggled, slot_SetPlotVariables),
      (chk_logY_toggled, slot_SetPlotVariables)]\<rparr>"

definition MakeCanvas :: "'c MainWindow \<Rightarrow> 'c MainWindow" where
  \<comment> \<open>The figure, canvas, axes and toolbar are display widgets; what the window itself
      keeps of them is the \<open>mpl_connect\<close> of the hover handler.\<close>
  "MakeCanvas w =
     w\<lparr>canvas_callbacks := canvas_callbacks w
          @ [(''motion_notify_event'', slot_mouseMoveEvent_Canvas)]\<rparr>"

definition mouseMoveEvent_Canvas :: "MouseEvent \<Rightarrow> 'c MainWindow \<Rightarrow> 'e exn + 'c MainWindow" where
  "mouseMoveEvent_Canvas event w =
     (case (case xdata event of Some xd \<Rightarrow> Some xd | None \<Rightarrow> oldXData w) of
        None \<Rightarrow> Inl AttributeError
      | Some x' \<Rightarrow>
     (case (case ydata event of Some yd \<Rightarrow> Some yd | None \<Rightarrow> oldYData w) of
        None \<Rightarrow> Inl AttributeError
      | Some y' \<Rightarrow>
     (let sUnit = (if rb_SI (widgets w) then ''kJ/(kg*K)'' else ''BTU/(lb*R)'');
          TUnit = (if rb_SI (widgets w) then ''C'' else ''F'')
      in Inr (w\<lparr>oldXData := Some x', oldYData := Some y',
                windowTitle := ''s: '' @ format_2f x' @ '' '' @ sUnit
                               @ '', T: '' @ format_2f y' @ '' '' @ TUnit\<rparr>))))"

definition Calculate ::
  "('e, 'c) rankineController \<Rightarrow> 'c MainWindow \<Rightarrow> 'e exn + 'c MainWindow" where
  "Calculate ctl w = call_RC ctl RC_updateModel w"

definition SelectQualityOrTHigh ::
  "('e, 'c) rankineController \<Rightarrow> 'c MainWindow \<Rightarrow> 'e exn + 'c MainWindow" where
  "SelectQualityOrTHigh ctl w = call_RC ctl RC_selectQualityOrTHigh w"

definition SetPlotVariables ::
  "('e, 'c) rankineController \<Rightarrow> 'c MainWindow \<Rightarrow> 'e exn + 'c MainWindow" where
  "SetPlotVariables ctl w = call_RC ctl RC_updatePlot w"

definition SetUnits ::
  "('e, 'c) rankineController \<Rightarrow> 'c MainWindow \<Rightarrow> 'e exn + 'c MainWindow" where
  "SetUnits ctl w = call_RC ctl RC_updateUnits w"

definition setNewPHigh ::
  "('e, 'c) rankineController \<Rightarrow> 'c MainWindow \<Rightarrow> 'e exn + 'c MainWindow" where
  "setNewPHigh ctl w = call_RC ctl RC_setNewPHigh w"

definition setNewPLow ::
  "('e, 'c) rankineController \<Rightarrow> 'c MainWindow \<Rightarrow> 'e exn + 'c MainWindow" where
  "setNewPLow ctl w = call_RC ctl RC_setNewPLow w"

definition show_window :: "'c MainWindow \<Rightarrow> 'c MainWindow" where
  \<comment> \<open>\<open>self.show()\<close>\<close>
  "show_window w = w\<lparr>shown := True, history := history w @ [Shown]\<rparr>"

definition setupUi :: "string \<Rightarrow> input_widgets \<Rightarrow> 'c MainWindow" where
  \<comment> \<open>\<open>super().__init__(); self.setupUi(self)\<close>: the generated \<open>Ui_Form\<close> is not part of the
      file at hand, so the title and widget contents it sets are parameters.\<close>
  "setupUi title0 ui0 =
     \<lparr>widgets = ui0, RC = None, connections = [], canvas_callbacks = [],
      oldXData = None, oldYData = None,
      windowTitle = title0, shown = False, history = []\<rparr>"

definition init ::
  "('e, 'c) rankineController \<Rightarrow> string \<Rightarrow> input_widgets \<Rightarrow> 'e exn + 'c MainWindow" where
  \<comment> \<open>\<open>MainWindow.__init__\<close>\<close>
  "init ctl title0 ui0 =
     (let w = MakeCanvas (AssignSlots (setupUi title0 ui0))
      in case rc_construct ctl (widgets w) of
           Inl e \<Rightarrow> Inl (Raised e)
         | Inr (ui, c) \<Rightarrow>
             bindE (setNewPHigh ctl (w\<lparr>widgets := ui, RC := Some c\<rparr>)) (\<lambda>w.
             bindE (setNewPLow ctl w) (\<lambda>w.
             bindE (Calculate ctl w) (\<lambda>w.
             Inr (show_window (w\<lparr>oldXData := Some zero_float, oldYData := Some zero_float\<rparr>))))))"

definition main ::
  "('e, 'c) rankineController \<Rightarrow> string \<Rightarrow> input_widgets \<Rightarrow> 'e exn + 'c MainWindow" where
  \<comment> \<open>\<open>mw = MainWindow(); mw.setWindowTitle('Rankine calculator')\<close>\<close>
  "main ctl title0 ui0 =
     bindE (init ctl title0 ui0) (\<lambda>mw. Inr (mw\<lparr>windowTitle := ''Rankine calculator''\<rparr>))"

subsection \<open>Event dispatch\<close>

text \<open>
  A Qt signal calls its slots without arguments; a canvas event calls its callbacks with the
  event. A method called with the wrong number of arguments raises \<open>TypeError\<close>.
\<close>

datatype event = Qt signal | Mpl string MouseEvent

fun run_slot ::
  "('e, 'c) rankineController \<Rightarrow> MouseEvent option \<Rightarrow> slot \<Rightarrow> 'c MainWindow
     \<Rightarrow> 'e exn + 'c MainWindow" where
  "run_slot ctl (Some me) slot_mouseMoveEvent_Canvas w = mouseMoveEvent_Canvas me w"
| "run_slot ctl None slot_mouseMoveEvent_Canvas w = Inl TypeError"
| "run_slot ctl (Some me) sl w = Inl TypeError"
| "run_slot ctl None slot_Calculate w = Calculate ctl w"
| "run_slot ctl None slot_SelectQualityOrTHigh w = SelectQualityOrTHigh ctl w"
| "run_slot ctl None slot_setNewPHigh w = setNewPHigh ctl w"
| "run_slot ctl None slot_setNewPLow w = setNewPLow ctl w"
| "run_slot ctl None slot_SetUnits w = SetUnits ctl w"
| "run_slot ctl None slot_SetPlotVariables w = SetPlotVariables ctl w"

fun run_slots ::
  "('e, 'c) rankineController \<Rightarrow> MouseEvent option \<Rightarrow> slot list \<Rightarrow> 'c MainWindow
     \<Rightarrow> 'e exn + 'c MainWindow" where
  "run_slots ctl arg [] w = Inr w"
| "run_slots ctl arg (sl # sls) w = bindE (run_slot ctl arg sl w) (run_slots ctl arg sls)"

fun emit ::
  "('e, 'c) rankineController \<Rightarrow> event \<Rightarrow> 'c MainWindow \<Rightarrow> 'e exn + 'c MainWindow" where
  \<comment> \<open>Every slot connected to the signal runs, in the order of connection, before the
      emission returns.\<close>
  "emit ctl (Qt sg) w =
     run_slots ctl None (map snd (filter (\<lambda>cn. fst cn = sg) (connections w))) w"
| "emit ctl (Mpl name me) w =
     run_slots ctl (Some me) (map snd (filter (\<lambda>cb. fst cb = name) (canvas_callbacks w))) w"

fun run_events ::
  "('e, 'c) rankineController \<Rightarrow> event list \<Rightarrow> 'c MainWindow \<Rightarrow> 'e exn + 'c MainWindow" where
  "run_events ctl [] w = Inr w"
| "run_events ctl (ev # evs) w = bindE (emit ctl ev w) (run_events ctl evs)"

fun latest :: "'a \<Rightarrow> 'a option list \<Rightarrow> 'a" where
  \<comment> \<open>The last value that is not \<open>None\<close>, or the default.\<close>
  "latest d [] = d"
| "latest d (None # xs) = latest d xs"
| "latest d (Some a # xs) = latest a xs"

fun motion_xdata :: "event \<Rightarrow> pyfloat option" where
  "motion_xdata (Mpl name me) = (if name = ''motion_notify_event'' then xdata me else None)"
| "motion_xdata (Qt sg) = None"

fun motion_ydata :: "event \<Rightarrow> pyfloat option" where
  "motion_ydata (Mpl name me) = (if name = ''motion_notify_event'' then ydata me else None)"
| "motion_ydata (Qt sg) = None"

definition wired :: "'c MainWindow \<Rightarrow> bool" where
  \<comment> \<open>The connections are exactly those that the constructor makes.\<close>
  "wired w \<longleftrightarrow>
     connections w =
       [(btn_Calculate_clicked, slot_Calculate),
        (rdo_Quality_clicked, slot_SelectQualityOrTHigh),
        (rdo_THigh_clicked, slot_SelectQualityOrTHigh),
        (le_PHigh_editingFinished, slot_setNewPHigh),
        (le_PLow_editingFinished, slot_setNewPLow),
        (rb_SI_clicked, slot_SetUnits),
        (rb_English_clicked, slot_SetUnits),
        (cmb_XAxis_currentIndexChanged, slot_SetPlotVariables),
        (cmb_YAxis_currentIndexChanged, slot_SetPlotVariables),
        (chk_logX_toggled, slot_SetPlotVariables),
        (chk_logY_toggled, slot_SetPlotVariables)]
     \<and> canvas_callbacks w = [(''motion_notify_event'', slot_mouseMoveEvent_Canvas)]"

definition hover_title :: "bool \<Rightarrow> pyfloat \<Rightarrow> pyfloat \<Rightarrow> string" where
  \<comment> \<open>The title that the hover handler sets, written out for each unit system.\<close>
  "hover_title si x y =
     (if si then ''s: '' @ format_2f x @ '' kJ/(kg*K), T: '' @ format_2f y @ '' C''
      else ''s: '' @ format_2f x @ '' BTU/(lb*R), T: '' @ format_2f y @ '' F'')"


section \<open>The cycle engine behind the controller\<close>

text \<open>
  Modelled from the spec: the window delegates every computation to \<open>Rankine_Classes_MVC\<close>,
  which is not part of the file at hand. The definitions of this section are therefore
  written from the specification: its data model (section 3), \<open>CycleSolver\<close> (section 4.3),
  \<open>PlotSampler\<close> (section 4.4) and its error kinds (section 7). Numbers are real numbers,
  and division is the total division of HOL (\<open>x / 0 = 0\<close>). The quantities of the engine
  are floating-point numbers, so an equation between the terms of one result holds of both,
  while a strict inequality between two results would hold of the real numbers only; none
  is stated below. The property data are a parameter.
\<close>

subsection \<open>Data model\<close>

datatype UnitSystem = SI | English

record StatePoint =
  pressure :: real
  temperature :: real
  enthalpy :: real
  entropy :: real
  volume :: real
  quality :: "real option"   \<comment> \<open>\<open>None\<close> outside the two-phase region\<close>

datatype InletSpec = Quality real | Temperature real

record CycleBoundary =
  P_H :: real
  P_L :: real
  inlet :: InletSpec
  eta_t :: real

record CycleResult =
  state1 :: StatePoint   \<comment> \<open>turbine inlet\<close>
  state2 :: StatePoint   \<comment> \<open>turbine exit, actual\<close>
  state3 :: StatePoint   \<comment> \<open>condenser exit, saturated liquid\<close>
  state4 :: StatePoint   \<comment> \<open>pump exit\<close>
  w_t :: real
  w_p :: real
  q_in :: real
  eta_th :: real

datatype BoundaryViolation = PressureOrdering | InletSpecification

datatype error =
  InvalidBoundaryError BoundaryViolation
  | PropertyLookupError nat   \<comment> \<open>the number of the state point whose lookup failed\<close>
  | InvalidUnitError
  | DomainError

subsection \<open>PropertyTable\<close>

record SaturationProps =
  T_sat :: real
  h_f :: real
  h_g :: real
  s_f :: real
  s_g :: real
  v_f :: real
  v_g :: real

text \<open>
  Modelled from the spec: the property data and their interpolation are missing, so a table
  is a record of the lookups of section 4.1, \<open>None\<close> standing for \<open>OutOfRangeError\<close>. The
  specification also uses, without putting them into the contract, a reverse lookup of a
  superheated state from pressure and entropy, the remaining properties of a state known
  by pressure and enthalpy (states 2 and 4), and the sampled saturation dome; they are
  fields of the parameter as well.
\<close>

record PropertyTable =
  saturationProps :: "real \<Rightarrow> SaturationProps option"
  superheatedProps :: "real \<Rightarrow> real \<Rightarrow> (real \<times> real \<times> real) option"
  saturationTemp :: "real \<Rightarrow> real option"
  superheatedReverse :: "real \<Rightarrow> real \<Rightarrow> StatePoint option"
  stateAtEnthalpy :: "real \<Rightarrow> real \<Rightarrow> StatePoint option"
  saturationDome :: "StatePoint list"

subsection \<open>CycleSolver\<close>

record CycleSolver =
  boundary :: CycleBoundary
  unitSystem :: UnitSystem
  result :: "CycleResult option"

definition setBoundary ::
  "(UnitSystem \<Rightarrow> PropertyTable) \<Rightarrow> CycleBoundary \<Rightarrow> UnitSystem \<Rightarrow> CycleSolver
     \<Rightarrow> (error + unit) \<times> CycleSolver" where
  \<comment> \<open>Modelled from the spec: \<open>setBoundary\<close> of section 4.3 checks the invariant of
      \<open>CycleBoundary\<close> (section 3). A valid boundary is stored with the unit system, which
      invalidates the derived result; a violation leaves the solver as it was.\<close>
  "setBoundary tables b u sv =
     (if \<not> (P_L b < P_H b \<and> 0 < P_L b) then (Inl (InvalidBoundaryError PressureOrdering), sv)
      else
        (case inlet b of
           Quality x1 \<Rightarrow>
             (if 0 \<le> x1 \<and> x1 \<le> 1
              then (Inr (), sv\<lparr>boundary := b, unitSystem := u, result := None\<rparr>)
              else (Inl (InvalidBoundaryError InletSpecification), sv))
         | Temperature T1 \<Rightarrow>
             (case saturationTemp (tables u) (P_H b) of
                None \<Rightarrow> (Inl (PropertyLookupError 1), sv)
              | Some ts \<Rightarrow>
                  (if ts < T1
                   then (Inr (), sv\<lparr>boundary := b, unitSystem := u, result := None\<rparr>)
                   else (Inl (InvalidBoundaryError InletSpecification), sv)))))"

definition turbineInlet :: "PropertyTable \<Rightarrow> CycleBoundary \<Rightarrow> StatePoint option" where
  \<comment> \<open>Modelled from the spec: state 1 is the saturated mixture at \<open>P_H\<close> with the given
      quality, or the superheated lookup at \<open>(P_H, T1)\<close>.\<close>
  "turbineInlet tb b =
     (case inlet b of
        Quality x1 \<Rightarrow>
          (case saturationProps tb (P_H b) of
             None \<Rightarrow> None
           | Some sat \<Rightarrow>
               Some \<lparr>pressure = P_H b, temperature = T_sat sat,
                     enthalpy = h_f sat + x1 * (h_g sat - h_f sat),
                     entropy = s_f sat + x1 * (s_g sat - s_f sat),
                     volume = v_f sat + x1 * (v_g sat - v_f sat),
                     quality = Some x1\<rparr>)
      | Temperature T1 \<Rightarrow>
          (case superheatedProps tb (P_H b) T1 of
             None \<Rightarrow> None
           | Some (h1, s1, v1) \<Rightarrow>
               Some \<lparr>pressure = P_H b, temperature = T1, enthalpy = h1, entropy = s1,
                     volume = v1, quality = None\<rparr>))"

definition isentropicExit :: "PropertyTable \<Rightarrow> real \<Rightarrow> real \<Rightarrow> real option" where
  \<comment> \<open>Modelled from the spec: the enthalpy \<open>h2s\<close> of the state at \<open>P_L\<close> with the entropy of
      state 1, by inverting \<open>s_f + x * (s_g - s_f) = s1\<close> for the quality, clamped to
      \<open>[0, 1]\<close>; if the inversion asks for \<open>x > 1\<close> the state is superheated and found by
      the reverse lookup.\<close>
  "isentropicExit tb pl s1 =
     (case saturationProps tb pl of
        None \<Rightarrow> None
      | Some sat \<Rightarrow>
          (let xi = (s1 - s_f sat) / (s_g sat - s_f sat)
           in if 1 < xi then map_option enthalpy (superheatedReverse tb pl s1)
              else Some (h_f sat + min 1 (max 0 xi) * (h_g sat - h_f sat))))"

definition recompute_result :: "PropertyTable \<Rightarrow> CycleBoundary \<Rightarrow> error + CycleResult" where
  \<comment> \<open>Modelled from the spec: the states and derived terms of \<open>recompute\<close>, section 4.3.\<close>
  "recompute_result tb b =
     (case turbineInlet tb b of
        None \<Rightarrow> Inl (PropertyLookupError 1)
      | Some st1 \<Rightarrow>
     (case isentropicExit tb (P_L b) (entropy st1) of
        None \<Rightarrow> Inl (PropertyLookupError 2)
      | Some h2s \<Rightarrow>
     (let h2 = enthalpy st1 - eta_t b * (enthalpy st1 - h2s)
      in case stateAtEnthalpy tb (P_L b) h2 of
        None \<Rightarrow> Inl (PropertyLookupError 2)
      | Some at2 \<Rightarrow>
     (case saturationProps tb (P_L b) of
        None \<Rightarrow> Inl (PropertyLookupError 3)
      | Some sat \<Rightarrow>
     (let st3 = \<lparr>pressure = P_L b, temperature = T_sat sat, enthalpy = h_f sat,
                 entropy = s_f sat, volume = v_f sat, quality = Some 0\<rparr>;
          wp = volume st3 * (P_H b - P_L b);
          h4 = enthalpy st3 + wp
      in case stateAtEnthalpy tb (P_H b) h4 of
        None \<Rightarrow> Inl (PropertyLookupError 4)
      | Some at4 \<Rightarrow>
     (let st2 = at2\<lparr>pressure := P_L b, enthalpy := h2\<rparr>;
          st4 = at4\<lparr>pressure := P_H b, enthalpy := h4\<rparr>;
          wt = enthalpy st1 - enthalpy st2;
          qin = enthalpy st1 - enthalpy st4
      in Inr \<lparr>state1 = st1, state2 = st2, state3 = st3, state4 = st4,
              w_t = wt, w_p = wp, q_in = qin, eta_th = (wt - wp) / qin\<rparr>))))))"

definition recompute ::
  "(UnitSystem \<Rightarrow> PropertyTable) \<Rightarrow> CycleSolver \<Rightarrow> (error + CycleResult) \<times> CycleSolver" where
  \<comment> \<open>Modelled from the spec: \<open>recompute\<close> derives the result from the stored boundary and
      replaces the stored result as a whole; after a failed lookup no result is published.\<close>
  "recompute tables sv =
     (case recompute_result (tables (unitSystem sv)) (boundary sv) of
        Inl e \<Rightarrow> (Inl e, sv)
      | Inr r \<Rightarrow> (Inr r, sv\<lparr>result := Some r\<rparr>))"

subsection \<open>PlotSampler\<close>

text \<open>
  Modelled from the spec: the axis variables are drawn from the property set
  \<open>{T, s, h, P, v}\<close>; \<open>coordinate\<close> reads the property off a state point.
\<close>

datatype AxisVar = Var_T | Var_s | Var_h | Var_P | Var_v

fun coordinate :: "AxisVar \<Rightarrow> StatePoint \<Rightarrow> real" where
  "coordinate Var_T p = temperature p"
| "coordinate Var_s p = entropy p"
| "coordinate Var_h p = enthalpy p"
| "coordinate Var_P p = pressure p"
| "coordinate Var_v p = volume p"

definition scale :: "bool \<Rightarrow> real \<Rightarrow> error + real" where
  \<comment> \<open>Modelled from the spec: a log-scale flag turns a value into its logarithm and fails
      with \<open>DomainError\<close> on a value that is not positive.\<close>
  "scale lg val = (if lg then (if val \<le> 0 then Inl DomainError else Inr (ln val)) else Inr val)"

definition requested_points ::
  "PropertyTable \<Rightarrow> CycleResult \<Rightarrow> AxisVar \<Rightarrow> AxisVar \<Rightarrow> StatePoint list" where
  \<comment> \<open>Modelled from the spec: the four state points of the cycle, followed in the T-s plot
      mode by the sampled saturation dome.\<close>
  "requested_points tb r ax ay =
     [state1 r, state2 r, state3 r, state4 r]
     @ (if ax = Var_s \<and> ay = Var_T then saturationDome tb else [])"

fun sample_points ::
  "AxisVar \<Rightarrow> AxisVar \<Rightarrow> bool \<Rightarrow> bool \<Rightarrow> StatePoint list \<Rightarrow> error + (real \<times> real) list" where
  \<comment> \<open>Modelled from the spec: the coordinate pairs of the points, in order, each
      coordinate scaled; the first failure is the outcome.\<close>
  "sample_points ax ay logX logY [] = Inr []"
| "sample_points ax ay logX logY (p # ps) =
     bindE (scale logX (coordinate ax p)) (\<lambda>xv.
     bindE (scale logY (coordinate ay p)) (\<lambda>yv.
     bindE (sample_points ax ay logX logY ps) (\<lambda>rest.
     Inr ((xv, yv) # rest))))"

definition sample ::
  "PropertyTable \<Rightarrow> CycleResult \<Rightarrow> AxisVar \<Rightarrow> AxisVar \<Rightarrow> bool \<Rightarrow> bool
     \<Rightarrow> error + (real \<times> real) list" where
  \<comment> \<open>Modelled from the spec: \<open>PlotSampler.sample\<close>, section 4.4.\<close>
  "sample tb r ax ay logX logY = sample_points ax ay logX logY (requested_points tb r ax ay)"

subsection \<open>Plot refresh\<close>




subsection \<open>Values used in examples\<close>

definition idle_controller :: "(unit, unit) rankineController" where
  \<comment> \<open>A controller whose methods do nothing.\<close>
  "idle_controller =
     \<lparr>rc_construct = (\<lambda>ui. Inr (ui, ())), invoke = (\<lambda>m ui c. Inr (ui, c))\<rparr>"

definition example_widgets :: "bool \<Rightarrow> input_widgets" where
  "example_widgets si =
     \<lparr>rb_SI = si, le_PHigh = ''8000'', le_PLow = ''8'', le_TurbineInletCondition = ''1.0'',
      rdo_Quality = True, le_TurbineEff = ''1.0'', cmb_XAxis = ''s'', cmb_YAxis = ''T'',
      chk_logX = False, chk_logY = False\<rparr>"

definition example_window :: "bool \<Rightarrow> unit MainWindow" where
  \<comment> \<open>The window as the program starts it, with a controller that does nothing.\<close>
  "example_window si =
     (case main idle_controller [] (example_widgets si) of
        Inr mw \<Rightarrow> mw
      | Inl e \<Rightarrow> setupUi [] (example_widgets si))"

definition steam_table :: PropertyTable where
  \<comment> \<open>Two rows of the saturated water table, 8 kPa and 8000 kPa (kJ, kg, K, degrees
      Celsius), and a dome sampled at these rows and at the triple point.\<close>
  "steam_table =
     (let sat = (\<lambda>p::real.
            if p = 8 then
              Some \<lparr>T_sat = 41.51, h_f = 173.88, h_g = 2577.0, s_f = 0.5926, s_g = 8.2287,
                    v_f = 0.001008, v_g = 18.103\<rparr>
            else if p = 8000 then
              Some \<lparr>T_sat = 295.06, h_f = 1316.6, h_g = 2758.0, s_f = 3.2068, s_g = 5.7432,
                    v_f = 0.001384, v_g = 0.02352\<rparr>
            else None)
      in \<lparr>saturationProps = sat,
          superheatedProps = (\<lambda>p t. None),
          saturationTemp = (\<lambda>p. map_option T_sat (sat p)),
          superheatedReverse = (\<lambda>p s1. None),
          stateAtEnthalpy = (\<lambda>p h.
            case sat p of
              None \<Rightarrow> None
            | Some st \<Rightarrow>
                Some \<lparr>pressure = p, temperature = T_sat st, enthalpy = h,
                      entropy = s_f st + (h - h_f st) / (h_g st - h_f st) * (s_g st - s_f st),
                      volume = v_f st + (h - h_f st) / (h_g st - h_f st) * (v_g st - v_f st),
                      quality = Some ((h - h_f st) / (h_g st - h_f st))\<rparr>),
          saturationDome =
            [\<lparr>pressure = 0.6113, temperature = 0.01, enthalpy = 0.01, entropy = 0,
              volume = 0.001, quality = Some 0\<rparr>,
             \<lparr>pressure = 8, temperature = 41.51, enthalpy = 173.88, entropy = 0.5926,
              volume = 0.001008, quality = Some 0\<rparr>,
             \<lparr>pressure = 8000, temperature = 295.06, enthalpy = 1316.6, entropy = 3.2068,
              volume = 0.001384, quality = Some 0\<rparr>,
             \<lparr>pressure = 8000, temperature = 295.06, enthalpy = 2758.0, entropy = 5.7432,
              volume = 0.02352, quality = Some 1\<rparr>,
             \<lparr>pressure = 8, temperature = 41.51, enthalpy = 2577.0, entropy = 8.2287,
              volume = 18.103, quality = Some 1\<rparr>]\<rparr>)"

definition example_boundary :: "real \<Rightarrow> CycleBoundary" where
  \<comment> \<open>Saturated vapour at 8000 kPa expanding to 8 kPa, with the given turbine efficiency.\<close>
  "example_boundary eta = \<lparr>P_H = 8000, P_L = 8, inlet = Quality 1, eta_t = eta\<rparr>"

definition example_solver :: "real \<Rightarrow> CycleSolver" where
  "example_solver eta = \<lparr>boundary = example_boundary eta, unitSystem = SI, result = None\<rparr>"

definition example_result :: "real \<Rightarrow> CycleResult" where
  \<comment> \<open>The cycle of \<open>example_boundary eta\<close> over \<open>steam_table\<close>.\<close>
  "example_result eta =
     (case recompute_result steam_table (example_boundary eta) of
        Inr r \<Rightarrow> r
      | Inl e \<Rightarrow>
          (let z = \<lparr>pressure = 0, temperature = 0, enthalpy = 0, entropy = 0, volume = 0,
                    quality = None\<rparr>
           in \<lparr>state1 = z, state2 = z, state3 = z, state4 = z,
               w_t = 0, w_p = 0, q_in = 0, eta_th = 0\<rparr>))"




section \<open>Lemmas on the main window\<close>

lemma str_nat_digit: "n < 10 \<Longrightarrow> str_nat n = [digit n]"
  by (simp add: str_nat.simps)

lemma str_nat_more: "10 \<le> n \<Longrightarrow> str_nat n = str_nat (n div 10) @ [digit (n mod 10)]"
  by (subst str_nat.simps) simp

lemmas format_2f_eval =
  format_2f_def hundredths_def round_half_even_def Let_def str_nat_digit str_nat_more digit_def

lemma bindE_Inr_iff: "bindE m f = Inr b \<longleftrightarrow> (\<exists>a. m = Inr a \<and> f a = Inr b)"
  by (cases m) (simp_all add: bindE_def)

lemma bindE_simps [simp]: "bindE (Inl e) f = Inl e" "bindE (Inr a) f = f a"
  by (simp_all add: bindE_def)

lemma bindE_return [simp]: "bindE m (run_slots ctl arg []) = m"
  by (cases m) simp_all

lemma call_RC_Inr:
  assumes "call_RC ctl m w = Inr w'"
  shows "\<exists>c ui c'. RC w = Some c \<and> invoke ctl m (widgets w) c = Inr (ui, c')
           \<and> w' = w\<lparr>widgets := ui, RC := Some c', history := history w @ [Called m]\<rparr>"
  using assms by (auto simp: call_RC_def split: option.splits sum.splits)

lemma call_RC_Inl:
  assumes "call_RC ctl m w = Inl e" and "RC w \<noteq> None"
  shows "\<exists>e'. e = Raised e'"
  using assms by (auto simp: call_RC_def split: option.splits sum.splits)

lemma init_Inr:
  assumes "init ctl title0 ui0 = Inr w"
  shows "\<exists>ui1 c1 ui2 c2 ui3 c3 ui4 c4.
           rc_construct ctl ui0 = Inr (ui1, c1)
         \<and> invoke ctl RC_setNewPHigh ui1 c1 = Inr (ui2, c2)
         \<and> invoke ctl RC_setNewPLow ui2 c2 = Inr (ui3, c3)
         \<and> invoke ctl RC_updateModel ui3 c3 = Inr (ui4, c4)
         \<and> widgets w = ui4 \<and> RC w = Some c4 \<and> wired w
         \<and> oldXData w = Some zero_float \<and> oldYData w = Some zero_float
         \<and> windowTitle w = title0 \<and> shown w
         \<and> history w = [Called RC_setNewPHigh, Called RC_setNewPLow, Called RC_updateModel, Shown]"
proof -
  let ?w = "MakeCanvas (AssignSlots (setupUi title0 ui0)) :: 'b MainWindow"
  have w: "widgets ?w = ui0" "wired ?w" "history ?w = []" "windowTitle ?w = title0"
    by (simp_all add: MakeCanvas_def AssignSlots_def setupUi_def wired_def)
  from assms obtain ui1 c1 where c: "rc_construct ctl ui0 = Inr (ui1, c1)"
    by (auto simp: init_def Let_def w split: sum.splits)
  from assms c obtain w1 w2 w3 where
    1: "setNewPHigh ctl (?w\<lparr>widgets := ui1, RC := Some c1\<rparr>) = Inr w1" and
    2: "setNewPLow ctl w1 = Inr w2" and
    3: "Calculate ctl w2 = Inr w3" and
    4: "w = show_window (w3\<lparr>oldXData := Some zero_float, oldYData := Some zero_float\<rparr>)"
    by (auto simp: init_def Let_def bindE_Inr_iff w)
  from call_RC_Inr [OF 1 [unfolded setNewPHigh_def]] obtain ui2 c2 where
    i1: "invoke ctl RC_setNewPHigh ui1 c1 = Inr (ui2, c2)" and
    w1: "widgets w1 = ui2" "RC w1 = Some c2" "wired w1" "windowTitle w1 = title0"
        "history w1 = [Called RC_setNewPHigh]"
    using w by (auto simp: wired_def)
  from call_RC_Inr [OF 2 [unfolded setNewPLow_def]] obtain ui3 c3 where
    i2: "invoke ctl RC_setNewPLow ui2 c2 = Inr (ui3, c3)" and
    w2: "widgets w2 = ui3" "RC w2 = Some c3" "wired w2" "windowTitle w2 = title0"
        "history w2 = [Called RC_setNewPHigh, Called RC_setNewPLow]"
    using w1 by (auto simp: wired_def)
  from call_RC_Inr [OF 3 [unfolded Calculate_def]] obtain ui4 c4 where
    i3: "invoke ctl RC_updateModel ui3 c3 = Inr (ui4, c4)" and
    w3: "widgets w3 = ui4" "RC w3 = Some c4" "wired w3" "windowTitle w3 = title0"
        "history w3 = [Called RC_setNewPHigh, Called RC_setNewPLow, Called RC_updateModel]"
    using w2 by (auto simp: wired_def)
  show ?thesis
    using c i1 i2 i3 w3 by (simp add: 4 show_window_def wired_def)
qed

lemma init_idle:
  "init idle_controller title0 ui0 =
     Inr \<lparr>widgets = ui0, RC = Some (),
          connections = connections (AssignSlots (setupUi title0 ui0 :: unit MainWindow)),
          canvas_callbacks = [(''motion_notify_event'', slot_mouseMoveEvent_Canvas)],
          oldXData = Some zero_float, oldYData = Some zero_float,
          windowTitle = title0, shown = True,
          history = [Called RC_setNewPHigh, Called RC_setNewPLow, Called RC_updateModel, Shown]\<rparr>"
  by (simp add: init_def idle_controller_def Let_def MakeCanvas_def AssignSlots_def setupUi_def
      setNewPHigh_def setNewPLow_def Calculate_def call_RC_def show_window_def)

lemma main_Inr:
  assumes "main ctl title0 ui0 = Inr w"
  shows "wired w \<and> RC w \<noteq> None \<and> oldXData w = Some zero_float \<and> oldYData w = Some zero_float
         \<and> windowTitle w = ''Rankine calculator''"
proof -
  from assms obtain w0 where i: "init ctl title0 ui0 = Inr w0"
    and w: "w = w0\<lparr>windowTitle := ''Rankine calculator''\<rparr>"
    by (auto simp: main_def bindE_Inr_iff)
  from init_Inr [OF i] show ?thesis
    by (auto simp: w wired_def)
qed

lemma mouseMoveEvent_Canvas_set:
  assumes "oldXData w = Some x" and "oldYData w = Some y"
  shows "mouseMoveEvent_Canvas me w =
           Inr (w\<lparr>oldXData := Some (latest x [xdata me]),
                  oldYData := Some (latest y [ydata me]),
                  windowTitle := hover_title (rb_SI (widgets w))
                    (latest x [xdata me]) (latest y [ydata me])\<rparr>)"
  using assms by (simp add: mouseMoveEvent_Canvas_def hover_title_def split: option.splits)

lemma emit_Mpl:
  assumes "wired w" and "oldXData w = Some x" and "oldYData w = Some y"
  shows "emit ctl (Mpl name me) w =
           (if name = ''motion_notify_event'' then mouseMoveEvent_Canvas me w else Inr w)"
  using assms by (simp add: wired_def)

lemma emit_Qt:
  assumes "wired w"
  shows "emit ctl (Qt sg) w = call_RC ctl
           (case sg of btn_Calculate_clicked \<Rightarrow> RC_updateModel
            | rdo_Quality_clicked \<Rightarrow> RC_selectQualityOrTHigh
            | rdo_THigh_clicked \<Rightarrow> RC_selectQualityOrTHigh
            | le_PHigh_editingFinished \<Rightarrow> RC_setNewPHigh
            | le_PLow_editingFinished \<Rightarrow> RC_setNewPLow
            | rb_SI_clicked \<Rightarrow> RC_updateUnits
            | rb_English_clicked \<Rightarrow> RC_updateUnits
            | cmb_XAxis_currentIndexChanged \<Rightarrow> RC_updatePlot
            | cmb_YAxis_currentIndexChanged \<Rightarrow> RC_updatePlot
            | chk_logX_toggled \<Rightarrow> RC_updatePlot
            | chk_logY_toggled \<Rightarrow> RC_updatePlot) w"
  using assms
  by (cases sg)
     (simp_all add: wired_def Calculate_def SelectQualityOrTHigh_def setNewPHigh_def
       setNewPLow_def SetUnits_def SetPlotVariables_def)

lemma emit_step:
  assumes "wired w" and "RC w \<noteq> None" and "oldXData w = Some x" and "oldYData w = Some y"
  shows "case emit ctl ev w of
           Inl e \<Rightarrow> (\<exists>e'. e = Raised e')
         | Inr w' \<Rightarrow> wired w' \<and> RC w' \<noteq> None
             \<and> oldXData w' = Some (latest x [motion_xdata ev])
             \<and> oldYData w' = Some (latest y [motion_ydata ev])"
proof (cases ev)
  case (Qt sg)
  show ?thesis
  proof (cases "emit ctl ev w")
    case (Inl e)
    with call_RC_Inl [OF _ assms(2)] show ?thesis
      unfolding Qt emit_Qt [OF assms(1)] by auto
  next
    case (Inr w')
    with call_RC_Inr assms show ?thesis
      unfolding Qt emit_Qt [OF assms(1)] by (fastforce simp: wired_def)
  qed
next
  case (Mpl name me)
  show ?thesis
    using assms
    unfolding Mpl emit_Mpl [OF assms(1,3,4)] mouseMoveEvent_Canvas_set [OF assms(3,4)]
    by (cases "xdata me"; cases "ydata me") (simp_all add: wired_def)
qed

lemma run_events_inv:
  assumes "wired w" and "RC w \<noteq> None" and "oldXData w = Some x" and "oldYData w = Some y"
  shows "case run_events ctl evs w of
           Inl e \<Rightarrow> (\<exists>e'. e = Raised e')
         | Inr w' \<Rightarrow> wired w' \<and> RC w' \<noteq> None
             \<and> oldXData w' = Some (latest x (map motion_xdata evs))
             \<and> oldYData w' = Some (latest y (map motion_ydata evs))"
  using assms
proof (induction evs arbitrary: w x y)
  case Nil
  then show ?case by simp
next
  case (Cons ev evs)
  show ?case
  proof (cases "emit ctl ev w")
    case (Inl e)
    with emit_step [OF Cons.prems, where ctl = ctl and ev = ev] show ?thesis by simp
  next
    case (Inr w1)
    with emit_step [OF Cons.prems, where ctl = ctl and ev = ev] have
      1: "wired w1" "RC w1 \<noteq> None" "oldXData w1 = Some (latest x [motion_xdata ev])"
         "oldYData w1 = Some (latest y [motion_ydata ev])"
      by simp_all
    have 2: "latest (latest x [motion_xdata ev]) (map motion_xdata evs)
               = latest x (map motion_xdata (ev # evs))"
            "latest (latest y [motion_ydata ev]) (map motion_ydata evs)
               = latest y (map motion_ydata (ev # evs))"
      by (cases "motion_xdata ev"; simp) (cases "motion_ydata ev"; simp)
    have 3: "run_events ctl (ev # evs) w = run_events ctl evs w1"
      by (simp add: Inr)
    from Cons.IH [OF 1, unfolded 2] show ?thesis
      by (simp only: 3)
  qed
qed

lemma main_idle: "main idle_controller [] (example_widgets si) = Inr (example_window si)"
  by (simp add: example_window_def main_def init_idle)

lemma example_window_simps:
  "widgets (example_window si) = example_widgets si"
  "oldXData (example_window si) = Some zero_float"
  "oldYData (example_window si) = Some zero_float"
  "RC (example_window si) = Some ()"
  "canvas_callbacks (example_window si) = [(''motion_notify_event'', slot_mouseMoveEvent_Canvas)]"
  "connections (example_window si) =
     [(btn_Calculate_clicked, slot_Calculate),
      (rdo_Quality_clicked, slot_SelectQualityOrTHigh),
      (rdo_THigh_clicked, slot_SelectQualityOrTHigh),
      (le_PHigh_editingFinished, slot_setNewPHigh),
      (le_PLow_editingFinished, slot_setNewPLow),
      (rb_SI_clicked, slot_SetUnits),
      (rb_English_clicked, slot_SetUnits),
      (cmb_XAxis_currentIndexChanged, slot_SetPlotVariables),
      (cmb_YAxis_currentIndexChanged, slot_SetPlotVariables),
      (chk_logX_toggled, slot_SetPlotVariables),
      (chk_logY_toggled, slot_SetPlotVariables)]"
  by (simp_all add: example_window_def main_def init_idle AssignSlots_def setupUi_def)


section \<open>The main window: claims\<close>

text \<open>
  Claim C10. The constructor calls \<open>setNewPHigh\<close>, then \<open>setNewPLow\<close>, then \<open>Calculate\<close> (the
  controller's \<open>updateModel\<close>) and only then shows the window. Whatever the controller does,
  the outcome of the constructor is this: if the construction of the controller or one of
  the three calls raises, each call being made on what the call before it has left, the
  constructor raises the same and shows no window; if all succeed, the constructor returns
  a window that is shown, whose history is exactly the three controller calls in this
  order followed by \<open>show()\<close>, whose widgets and controller are as \<open>updateModel\<close> has left
  them, and whose hover coordinates are \<open>0.0\<close>.
\<close>

theorem constructor_populates_before_show:
  "case rc_construct ctl ui of
     Inl e \<Rightarrow> init ctl title ui = Inl (Raised e)
   | Inr (ui1, c1) \<Rightarrow>
  (case invoke ctl RC_setNewPHigh ui1 c1 of
     Inl e \<Rightarrow> init ctl title ui = Inl (Raised e)
   | Inr (ui2, c2) \<Rightarrow>
  (case invoke ctl RC_setNewPLow ui2 c2 of
     Inl e \<Rightarrow> init ctl title ui = Inl (Raised e)
   | Inr (ui3, c3) \<Rightarrow>
  (case invoke ctl RC_updateModel ui3 c3 of
     Inl e \<Rightarrow> init ctl title ui = Inl (Raised e)
   | Inr (ui4, c4) \<Rightarrow>
       (\<exists>w. init ctl title ui = Inr w
          \<and> history w = [Called RC_setNewPHigh, Called RC_setNewPLow, Called RC_updateModel, Shown]
          \<and> shown w \<and> widgets w = ui4 \<and> RC w = Some c4 \<and> wired w
          \<and> oldXData w = Some zero_float \<and> oldYData w = Some zero_float
          \<and> windowTitle w = title))))"
  by (simp add: init_def Let_def MakeCanvas_def AssignSlots_def setupUi_def setNewPHigh_def
      setNewPLow_def Calculate_def call_RC_def show_window_def wired_def
      split: sum.splits prod.splits)

theorem constructor_populates_before_show_witness:
  "rc_construct idle_controller (example_widgets True) = Inr (example_widgets True, ())
   \<and> invoke idle_controller RC_setNewPHigh (example_widgets True) () = Inr (example_widgets True, ())
   \<and> invoke idle_controller RC_setNewPLow (example_widgets True) () = Inr (example_widgets True, ())
   \<and> invoke idle_controller RC_updateModel (example_widgets True) () = Inr (example_widgets True, ())
   \<and> (\<exists>w. init idle_controller ''Form'' (example_widgets True) = Inr w
          \<and> history w = [Called RC_setNewPHigh, Called RC_setNewPLow, Called RC_updateModel, Shown]
          \<and> shown w \<and> widgets w = example_widgets True \<and> RC w = Some () \<and> wired w
          \<and> oldXData w = Some zero_float \<and> oldYData w = Some zero_float
          \<and> windowTitle w = ''Form'')"
  using constructor_populates_before_show [where ctl = idle_controller
      and ui = "example_widgets True" and title = "''Form''"]
  by (simp add: idle_controller_def)

text \<open>
  Claim C9. In every state that the window reaches from its start by canvas and widget
  events, both hover coordinates are set: each is the last value that a mouse-move event
  carried, or \<open>0.0\<close> if none did. The handler therefore never meets a missing coordinate: it
  replaces a stored coordinate only by event data that are not \<open>None\<close>, keeps it otherwise,
  and the title it sets formats these two floats.
\<close>

theorem hover_coordinates_retained:
  assumes "main ctl title0 ui0 = Inr w0" and "run_events ctl evs w0 = Inr w"
  shows "oldXData w = Some (latest zero_float (map motion_xdata evs))
       \<and> oldYData w = Some (latest zero_float (map motion_ydata evs))
       \<and> mouseMoveEvent_Canvas me w =
           Inr (w\<lparr>oldXData := Some (latest (latest zero_float (map motion_xdata evs)) [xdata me]),
                  oldYData := Some (latest (latest zero_float (map motion_ydata evs)) [ydata me]),
                  windowTitle := hover_title (rb_SI (widgets w))
                    (latest (latest zero_float (map motion_xdata evs)) [xdata me])
                    (latest (latest zero_float (map motion_ydata evs)) [ydata me])\<rparr>)"
proof -
  from main_Inr [OF assms(1)] have
    0: "wired w0" "RC w0 \<noteq> None" "oldXData w0 = Some zero_float" "oldYData w0 = Some zero_float"
    by simp_all
  from run_events_inv [OF 0, where ctl = ctl and evs = evs] assms(2) have
    1: "oldXData w = Some (latest zero_float (map motion_xdata evs))"
       "oldYData w = Some (latest zero_float (map motion_ydata evs))"
    by simp_all
  from mouseMoveEvent_Canvas_set [OF 1] 1 show ?thesis by blast
qed

theorem hover_coordinates_retained_witness:
  "main idle_controller [] (example_widgets True) = Inr (example_window True)
   \<and> run_events idle_controller
        [Mpl ''motion_notify_event'' \<lparr>xdata = Some (Finite False 13 (- 1)), ydata = Some (Finite False 75 2)\<rparr>,
         Qt chk_logX_toggled,
         Mpl ''motion_notify_event'' \<lparr>xdata = None, ydata = None\<rparr>]
        (example_window True)
      = Inr ((example_window True)
          \<lparr>history := history (example_window True) @ [Called RC_updatePlot],
           oldXData := Some (Finite False 13 (- 1)), oldYData := Some (Finite False 75 2),
           windowTitle := ''s: 6.50 kJ/(kg*K), T: 300.00 C''\<rparr>)
   \<and> mouseMoveEvent_Canvas \<lparr>xdata = None, ydata = Some (Finite False 3 (- 3))\<rparr>
        ((example_window True)
          \<lparr>history := history (example_window True) @ [Called RC_updatePlot],
           oldXData := Some (Finite False 13 (- 1)), oldYData := Some (Finite False 75 2),
           windowTitle := ''s: 6.50 kJ/(kg*K), T: 300.00 C''\<rparr>)
      = (Inr ((example_window True)
          \<lparr>history := history (example_window True) @ [Called RC_updatePlot],
           oldXData := Some (Finite False 13 (- 1)), oldYData := Some (Finite False 3 (- 3)),
           windowTitle := ''s: 6.50 kJ/(kg*K), T: 0.38 C''\<rparr>)
         :: unit exn + unit MainWindow)"
proof -
  have f: "format_2f (Finite False 13 (- 1)) = ''6.50''" "format_2f (Finite False 75 2) = ''300.00''"
    "format_2f (Finite False 3 (- 3)) = ''0.38''"
    by (simp_all add: format_2f_eval)
  have h1: "main idle_controller [] (example_widgets True) = Inr (example_window True)"
    by (rule main_idle)
  have h2: "run_events idle_controller
        [Mpl ''motion_notify_event'' \<lparr>xdata = Some (Finite False 13 (- 1)), ydata = Some (Finite False 75 2)\<rparr>,
         Qt chk_logX_toggled,
         Mpl ''motion_notify_event'' \<lparr>xdata = None, ydata = None\<rparr>]
        (example_window True)
      = Inr ((example_window True)
          \<lparr>history := history (example_window True) @ [Called RC_updatePlot],
           oldXData := Some (Finite False 13 (- 1)), oldYData := Some (Finite False 75 2),
           windowTitle := ''s: 6.50 kJ/(kg*K), T: 300.00 C''\<rparr>)"
    by (simp add: example_window_simps mouseMoveEvent_Canvas_def SetPlotVariables_def
        call_RC_def idle_controller_def example_widgets_def f)
  from hover_coordinates_retained [OF h1 h2,
      of "\<lparr>xdata = None, ydata = Some (Finite False 3 (- 3))\<rparr>"]
  have h3: "mouseMoveEvent_Canvas \<lparr>xdata = None, ydata = Some (Finite False 3 (- 3))\<rparr>
        ((example_window True)
          \<lparr>history := history (example_window True) @ [Called RC_updatePlot],
           oldXData := Some (Finite False 13 (- 1)), oldYData := Some (Finite False 75 2),
           windowTitle := ''s: 6.50 kJ/(kg*K), T: 300.00 C''\<rparr>)
      = (Inr ((example_window True)
          \<lparr>history := history (example_window True) @ [Called RC_updatePlot],
           oldXData := Some (Finite False 13 (- 1)), oldYData := Some (Finite False 3 (- 3)),
           windowTitle := ''s: 6.50 kJ/(kg*K), T: 0.38 C''\<rparr>)
         :: unit exn + unit MainWindow)"
    by (simp add: hover_title_def f example_window_simps example_widgets_def)
  from h1 h2 h3 show ?thesis by blast
qed

text \<open>
  Claim C7, as the code has it. The title set by the hover handler ends the entropy with
  \<open>kJ/(kg*K)\<close> and the temperature with \<open>C\<close> when the SI radio button is checked, and with
  \<open>BTU/(lb*R)\<close> and \<open>F\<close> otherwise. The temperature suffix of the SI system is \<open>C\<close>, not
  \<open>K\<close>: see the counterexample below.
\<close>

theorem hover_title_unit_suffixes:
  assumes "mouseMoveEvent_Canvas me w = Inr w'"
  shows "\<exists>x y. oldXData w' = Some x \<and> oldYData w' = Some y
           \<and> windowTitle w' =
               ''s: '' @ format_2f x @ '' ''
               @ (if rb_SI (widgets w) then ''kJ/(kg*K)'' else ''BTU/(lb*R)'')
               @ '', T: '' @ format_2f y @ '' ''
               @ (if rb_SI (widgets w) then ''C'' else ''F'')"
  using assms by (auto simp: mouseMoveEvent_Canvas_def split: option.splits)

theorem hover_title_unit_suffixes_witness:
  "mouseMoveEvent_Canvas \<lparr>xdata = Some (Finite False 13 (- 3)), ydata = Some (Finite False 53 1)\<rparr>
       (example_window False)
     = (Inr ((example_window False)
          \<lparr>oldXData := Some (Finite False 13 (- 3)), oldYData := Some (Finite False 53 1),
           windowTitle := ''s: 1.62 BTU/(lb*R), T: 106.00 F''\<rparr>) :: unit exn + unit MainWindow)
   \<and> (\<exists>x y. windowTitle ((example_window False)
          \<lparr>oldXData := Some (Finite False 13 (- 3)), oldYData := Some (Finite False 53 1),
           windowTitle := ''s: 1.62 BTU/(lb*R), T: 106.00 F''\<rparr>)
         = ''s: '' @ format_2f x @ '' BTU/(lb*R), T: '' @ format_2f y @ '' F'')"
proof -
  have f: "format_2f (Finite False 13 (- 3)) = ''1.62''" "format_2f (Finite False 53 1) = ''106.00''"
    by (simp_all add: format_2f_eval)
  have h: "mouseMoveEvent_Canvas \<lparr>xdata = Some (Finite False 13 (- 3)), ydata = Some (Finite False 53 1)\<rparr>
       (example_window False)
     = (Inr ((example_window False)
          \<lparr>oldXData := Some (Finite False 13 (- 3)), oldYData := Some (Finite False 53 1),
           windowTitle := ''s: 1.62 BTU/(lb*R), T: 106.00 F''\<rparr>) :: unit exn + unit MainWindow)"
    by (simp add: mouseMoveEvent_Canvas_def example_window_simps example_widgets_def f)
  from hover_title_unit_suffixes [OF h] show ?thesis
    by (auto simp: h example_window_simps example_widgets_def)
qed

theorem hover_title_SI_temperature_suffix_counterexample:
  "rb_SI (widgets (example_window True))
   \<and> mouseMoveEvent_Canvas \<lparr>xdata = Some (Finite False 13 (- 1)), ydata = Some (Finite False 75 2)\<rparr>
       (example_window True)
     = (Inr ((example_window True)
          \<lparr>oldXData := Some (Finite False 13 (- 1)), oldYData := Some (Finite False 75 2),
           windowTitle := ''s: 6.50 kJ/(kg*K), T: 300.00 C''\<rparr>) :: unit exn + unit MainWindow)
   \<and> mouseMoveEvent_Canvas \<lparr>xdata = Some (Finite False 13 (- 1)), ydata = Some (Finite False 75 2)\<rparr>
       (example_window True)
     \<noteq> (Inr ((example_window True)
          \<lparr>oldXData := Some (Finite False 13 (- 1)), oldYData := Some (Finite False 75 2),
           windowTitle := ''s: 6.50 kJ/(kg*K), T: 300.00 K''\<rparr>) :: unit exn + unit MainWindow)"
proof -
  have f: "format_2f (Finite False 13 (- 1)) = ''6.50''" "format_2f (Finite False 75 2) = ''300.00''"
    by (simp_all add: format_2f_eval)
  have e: "mouseMoveEvent_Canvas \<lparr>xdata = Some (Finite False 13 (- 1)), ydata = Some (Finite False 75 2)\<rparr>
       (example_window True)
     = (Inr ((example_window True)
          \<lparr>oldXData := Some (Finite False 13 (- 1)), oldYData := Some (Finite False 75 2),
           windowTitle := ''s: 6.50 kJ/(kg*K), T: 300.00 C''\<rparr>) :: unit exn + unit MainWindow)"
    by (simp add: mouseMoveEvent_Canvas_def example_window_simps example_widgets_def f)
  have n: "(example_window True)
          \<lparr>oldXData := Some (Finite False 13 (- 1)), oldYData := Some (Finite False 75 2),
           windowTitle := ''s: 6.50 kJ/(kg*K), T: 300.00 C''\<rparr>
       \<noteq> (example_window True)
          \<lparr>oldXData := Some (Finite False 13 (- 1)), oldYData := Some (Finite False 75 2),
           windowTitle := ''s: 6.50 kJ/(kg*K), T: 300.00 K''\<rparr>"
    by (auto dest: arg_cong [where f = windowTitle])
  have s: "rb_SI (widgets (example_window True))"
    by (simp add: example_window_simps example_widgets_def)
  from s e n show ?thesis by simp
qed


section \<open>Lemmas on the cycle engine\<close>

lemma recompute_result_Inr:
  assumes "recompute_result tb b = Inr r"
  shows "\<exists>st1 h2s at2 sat at4.
           turbineInlet tb b = Some st1
         \<and> isentropicExit tb (P_L b) (entropy st1) = Some h2s
         \<and> stateAtEnthalpy tb (P_L b) (enthalpy st1 - eta_t b * (enthalpy st1 - h2s)) = Some at2
         \<and> saturationProps tb (P_L b) = Some sat
         \<and> stateAtEnthalpy tb (P_H b) (h_f sat + v_f sat * (P_H b - P_L b)) = Some at4
         \<and> state1 r = st1
         \<and> state2 r = at2\<lparr>pressure := P_L b,
                           enthalpy := enthalpy st1 - eta_t b * (enthalpy st1 - h2s)\<rparr>
         \<and> state3 r = \<lparr>pressure = P_L b, temperature = T_sat sat, enthalpy = h_f sat,
                        entropy = s_f sat, volume = v_f sat, quality = Some 0\<rparr>
         \<and> state4 r = at4\<lparr>pressure := P_H b,
                           enthalpy := h_f sat + v_f sat * (P_H b - P_L b)\<rparr>
         \<and> w_t r = eta_t b * (enthalpy st1 - h2s)
         \<and> w_p r = v_f sat * (P_H b - P_L b)
         \<and> q_in r = enthalpy st1 - (h_f sat + v_f sat * (P_H b - P_L b))
         \<and> eta_th r = (w_t r - w_p r) / q_in r"
  using assms
  by (auto simp: recompute_result_def Let_def split: option.splits)

lemma steam_result:
  "recompute_result steam_table (example_boundary eta) =
     Inr \<lparr>state1 = \<lparr>pressure = 8000, temperature = 295.06, enthalpy = 2758, entropy = 5.7432,
                    volume = 0.02352, quality = Some 1\<rparr>,
          state2 = \<lparr>pressure = 8, temperature = 41.51,
                    enthalpy = 2758 - eta * (2758 - (173.88 + 51506 / 76361 * 2403.12)),
                    entropy = 0.5926 + (2758 - eta * (2758 - (173.88 + 51506 / 76361 * 2403.12)) - 173.88) / 2403.12 * 7.6361,
                    volume = 0.001008 + (2758 - eta * (2758 - (173.88 + 51506 / 76361 * 2403.12)) - 173.88) / 2403.12 * 18.101992,
                    quality = Some ((2758 - eta * (2758 - (173.88 + 51506 / 76361 * 2403.12)) - 173.88) / 2403.12)\<rparr>,
          state3 = \<lparr>pressure = 8, temperature = 41.51, enthalpy = 173.88, entropy = 0.5926,
                    volume = 0.001008, quality = Some 0\<rparr>,
          state4 = \<lparr>pressure = 8000, temperature = 295.06, enthalpy = 173.88 + 0.001008 * 7992,
                    entropy = 3.2068 + (173.88 + 0.001008 * 7992 - 1316.6) / 1441.4 * 2.5364,
                    volume = 0.001384 + (173.88 + 0.001008 * 7992 - 1316.6) / 1441.4 * 0.022136,
                    quality = Some ((173.88 + 0.001008 * 7992 - 1316.6) / 1441.4)\<rparr>,
          w_t = 2758 - (2758 - eta * (2758 - (173.88 + 51506 / 76361 * 2403.12))),
          w_p = 0.001008 * 7992,
          q_in = 2758 - (173.88 + 0.001008 * 7992),
          eta_th = (2758 - (2758 - eta * (2758 - (173.88 + 51506 / 76361 * 2403.12))) - 0.001008 * 7992)
                     / (2758 - (173.88 + 0.001008 * 7992))\<rparr>"
  by (simp add: recompute_result_def turbineInlet_def isentropicExit_def steam_table_def
      example_boundary_def Let_def)

lemma recompute_Inr:
  "recompute tables sv = (Inr r, sv') \<longleftrightarrow>
     recompute_result (tables (unitSystem sv)) (boundary sv) = Inr r \<and> sv' = sv\<lparr>result := Some r\<rparr>"
  by (auto simp: recompute_def split: sum.splits)

lemma example_result_eq:
  "recompute_result steam_table (example_boundary eta) = Inr (example_result eta)"
  by (simp add: example_result_def steam_result)

lemma example_recompute:
  "recompute (\<lambda>u. steam_table) (example_solver eta) =
     (Inr (example_result eta), (example_solver eta)\<lparr>result := Some (example_result eta)\<rparr>)"
  by (simp add: recompute_Inr example_solver_def example_result_eq)

lemma example_terms:
  "enthalpy (state1 (example_result eta)) = 2758"
  "entropy (state1 (example_result eta)) = 5.7432"
  "enthalpy (state2 (example_result eta)) = 2758 - eta * (2758 - (173.88 + 51506 / 76361 * 2403.12))"
  "enthalpy (state3 (example_result eta)) = 173.88"
  "enthalpy (state4 (example_result eta)) = 173.88 + 0.001008 * 7992"
  "w_t (example_result eta) = eta * (2758 - (173.88 + 51506 / 76361 * 2403.12))"
  "w_p (example_result eta) = 0.001008 * 7992"
  "q_in (example_result eta) = 2758 - (173.88 + 0.001008 * 7992)"
  "eta_th (example_result eta) =
     (eta * (2758 - (173.88 + 51506 / 76361 * 2403.12)) - 0.001008 * 7992)
       / (2758 - (173.88 + 0.001008 * 7992))"
  by (simp_all add: example_result_def steam_result)

lemma example_exit:
  "isentropicExit steam_table 8 5.7432 = Some (173.88 + 51506 / 76361 * 2403.12)"
  by (simp add: isentropicExit_def steam_table_def Let_def)

lemma scale_Inl: "scale lg val = Inl e \<Longrightarrow> e = DomainError"
  by (simp add: scale_def split: if_splits)

lemma sample_points_DomainError:
  assumes "(logX \<and> (\<exists>p\<in>set ps. coordinate ax p \<le> 0)) \<or> (logY \<and> (\<exists>p\<in>set ps. coordinate ay p \<le> 0))"
  shows "sample_points ax ay logX logY ps = Inl DomainError"
  using assms
proof (induction ps)
  case Nil
  then show ?case by simp
next
  case (Cons p ps)
  show ?case
  proof (cases "scale logX (coordinate ax p)")
    case (Inl e)
    with scale_Inl show ?thesis by (fastforce simp: bindE_def)
  next
    case x: (Inr xv)
    show ?thesis
    proof (cases "scale logY (coordinate ay p)")
      case (Inl e)
      with scale_Inl x show ?thesis by (fastforce simp: bindE_def)
    next
      case y: (Inr yv)
      from x have nx: "\<not> (logX \<and> coordinate ax p \<le> 0)"
        by (auto simp: scale_def)
      from y have ny: "\<not> (logY \<and> coordinate ay p \<le> 0)"
        by (auto simp: scale_def)
      from Cons.prems nx ny have
        "(logX \<and> (\<exists>p\<in>set ps. coordinate ax p \<le> 0)) \<or> (logY \<and> (\<exists>p\<in>set ps. coordinate ay p \<le> 0))"
        by auto
      from Cons.IH [OF this] show ?thesis
        by (simp add: x y bindE_def)
    qed
  qed
qed


section \<open>The cycle engine: claims\<close>

text \<open>
  Claim C1. Whenever \<open>recompute\<close> returns a result, the isentropic exit enthalpy \<open>h2s\<close> is
  resolved, the actual exit enthalpy is \<open>h2 = h1 - eta_t * (h1 - h2s)\<close>, computed in this one
  step, and \<open>w_t = h1 - h2\<close>, \<open>q_in = h1 - h4\<close> and \<open>eta_th = (w_t - w_p) / q_in\<close>.
\<close>

theorem recompute_closed_form:
  assumes "recompute tables sv = (Inr r, sv')"
  shows "\<exists>h2s. isentropicExit (tables (unitSystem sv)) (P_L (boundary sv)) (entropy (state1 r))
                 = Some h2s
           \<and> enthalpy (state2 r)
                 = enthalpy (state1 r) - eta_t (boundary sv) * (enthalpy (state1 r) - h2s)
           \<and> w_t r = enthalpy (state1 r) - enthalpy (state2 r)
           \<and> q_in r = enthalpy (state1 r) - enthalpy (state4 r)
           \<and> eta_th r = (w_t r - w_p r) / q_in r"
proof -
  from assms have "recompute_result (tables (unitSystem sv)) (boundary sv) = Inr r"
    by (simp add: recompute_Inr)
  from recompute_result_Inr [OF this] show ?thesis
    by auto
qed

theorem recompute_closed_form_witness:
  "recompute (\<lambda>u. steam_table) (example_solver 0.85) =
     (Inr (example_result 0.85), (example_solver 0.85)\<lparr>result := Some (example_result 0.85)\<rparr>)
   \<and> isentropicExit steam_table 8 (entropy (state1 (example_result 0.85)))
        = Some (173.88 + 51506 / 76361 * 2403.12)
   \<and> enthalpy (state2 (example_result 0.85))
        = 2758 - 0.85 * (2758 - (173.88 + 51506 / 76361 * 2403.12))
   \<and> w_t (example_result 0.85)
        = enthalpy (state1 (example_result 0.85)) - enthalpy (state2 (example_result 0.85))
   \<and> q_in (example_result 0.85)
        = enthalpy (state1 (example_result 0.85)) - enthalpy (state4 (example_result 0.85))
   \<and> eta_th (example_result 0.85)
        = (w_t (example_result 0.85) - w_p (example_result 0.85)) / q_in (example_result 0.85)"
proof -
  have h: "recompute (\<lambda>u. steam_table) (example_solver 0.85) =
     (Inr (example_result 0.85), (example_solver 0.85)\<lparr>result := Some (example_result 0.85)\<rparr>)"
    by (rule example_recompute)
  from recompute_closed_form [OF h] have
    "w_t (example_result 0.85)
        = enthalpy (state1 (example_result 0.85)) - enthalpy (state2 (example_result 0.85))"
    "q_in (example_result 0.85)
        = enthalpy (state1 (example_result 0.85)) - enthalpy (state4 (example_result 0.85))"
    "eta_th (example_result 0.85)
        = (w_t (example_result 0.85) - w_p (example_result 0.85)) / q_in (example_result 0.85)"
    by blast+
  moreover have "isentropicExit steam_table 8 (entropy (state1 (example_result 0.85)))
        = Some (173.88 + 51506 / 76361 * 2403.12)"
    unfolding example_terms by (rule example_exit)
  moreover have "enthalpy (state2 (example_result 0.85))
        = 2758 - 0.85 * (2758 - (173.88 + 51506 / 76361 * 2403.12))"
    unfolding example_terms ..
  ultimately show ?thesis using h by blast
qed

text \<open>
  Claim C2. A boundary with \<open>P_H \<le> P_L\<close> is rejected by \<open>setBoundary\<close> with
  \<open>InvalidBoundaryError\<close>, and the solver, with the result it stores, is unchanged.
\<close>

theorem setBoundary_rejects_pressure_ordering:
  assumes "P_H b \<le> P_L b"
  shows "setBoundary tables b u sv = (Inl (InvalidBoundaryError PressureOrdering), sv)"
  using assms by (simp add: setBoundary_def)

theorem setBoundary_rejects_pressure_ordering_witness:
  "P_H \<lparr>P_H = 8, P_L = 8000, inlet = Quality 1, eta_t = 1\<rparr>
     \<le> P_L \<lparr>P_H = 8, P_L = 8000, inlet = Quality 1, eta_t = 1\<rparr>
   \<and> setBoundary (\<lambda>u. steam_table) \<lparr>P_H = 8, P_L = 8000, inlet = Quality 1, eta_t = 1\<rparr> English
        ((example_solver 1)\<lparr>result := Some (example_result 1)\<rparr>)
      = (Inl (InvalidBoundaryError PressureOrdering),
         (example_solver 1)\<lparr>result := Some (example_result 1)\<rparr>)"
proof -
  have h: "P_H \<lparr>P_H = 8, P_L = 8000, inlet = Quality 1, eta_t = 1\<rparr>
     \<le> P_L \<lparr>P_H = 8, P_L = 8000, inlet = Quality 1, eta_t = 1\<rparr>"
    by simp
  from setBoundary_rejects_pressure_ordering [OF h] h show ?thesis
    by blast
qed

text \<open>
  Claim C6. If the log flag of an axis is set and a requested point has a coordinate on
  that axis that is zero or negative, \<open>PlotSampler.sample\<close> fails with \<open>DomainError\<close>; it
  returns no clamped or otherwise transformed sequence.
\<close>

theorem log_scale_domain_error:
  assumes "(logX \<and> (\<exists>p\<in>set (requested_points tb r ax ay). coordinate ax p \<le> 0))
         \<or> (logY \<and> (\<exists>p\<in>set (requested_points tb r ax ay). coordinate ay p \<le> 0))"
  shows "sample tb r ax ay logX logY = Inl DomainError"
  unfolding sample_def using assms by (rule sample_points_DomainError)

theorem log_scale_domain_error_witness:
  "\<lparr>pressure = 0.6113, temperature = 0.01, enthalpy = 0.01, entropy = 0,
      volume = 0.001, quality = Some 0\<rparr>
     \<in> set (requested_points steam_table (example_result 1) Var_s Var_T)
   \<and> coordinate Var_s \<lparr>pressure = 0.6113, temperature = 0.01, enthalpy = 0.01, entropy = 0,
      volume = 0.001, quality = Some 0\<rparr> \<le> 0
   \<and> sample steam_table (example_result 1) Var_s Var_T True False = Inl DomainError"
proof -
  let ?p = "\<lparr>pressure = 0.6113, temperature = 0.01, enthalpy = 0.01, entropy = 0,
      volume = 0.001, quality = Some (0::real)\<rparr>"
  have h1: "?p \<in> set (requested_points steam_table (example_result 1) Var_s Var_T)"
    by (simp add: requested_points_def steam_table_def)
  have h2: "coordinate Var_s ?p \<le> 0" by simp
  from h1 h2 have "(True \<and> (\<exists>p\<in>set (requested_points steam_table (example_result 1) Var_s Var_T).
                       coordinate Var_s p \<le> 0))
         \<or> (False \<and> (\<exists>p\<in>set (requested_points steam_table (example_result 1) Var_s Var_T).
                       coordinate Var_T p \<le> 0))"
    by blast
  from log_scale_domain_error [OF this] h1 h2 show ?thesis by blast
qed


section \<open>Plot refresh: claim\<close>





end
